theory Spec2Isabelle
  imports Complex_Main
begin

section \<open>JavaScript values\<close>

text \<open>
  The handlers of \<^verbatim>\<open>src/index.js\<close> receive parsed JSON (request bodies, query strings,
  gateway replies). A value is one of the JSON shapes or \<^verbatim>\<open>undefined\<close>; a number is
  the rational value of the parsed double (JSON carries no NaN), and the list of an object
  holds each of its keys once.
\<close>

datatype jsval =
    JUndefined
  | JNull
  | JBool bool
  | JNum rat
  | JStr string
  | JArr "jsval list"
  | JObj "(string \<times> jsval) list"

text \<open>Every \<^verbatim>\<open>throw\<close> of the source, and every rejection of a collaborator it awaits.\<close>

datatype error =
    TypeError           \<comment> \<open>property of undefined or null, or call of a non-function\<close>
  | AuthError           \<comment> \<open>"Could not authenticate with Pesapal."\<close>
  | RequestFailed       \<comment> \<open>axios rejects: transport failure or non-2xx reply\<close>
  | SubmissionError     \<comment> \<open>the reply to the order submission carries no redirect url\<close>
  | OrderNotFound       \<comment> \<open>"Order not found!"\<close>
  | UserNotFound        \<comment> \<open>"User not found!"\<close>
  | InvalidDocumentPath \<comment> \<open>Firestore: doc() needs a non-empty string\<close>
  | DocumentMissing     \<comment> \<open>Firestore: update() of a document that does not exist\<close>
  | InvalidValue        \<comment> \<open>Firestore: update() with a field value it does not take\<close>

text \<open>\<^verbatim>\<open>!v\<close> is \<open>\<not> truthy v\<close>.\<close>

fun truthy :: "jsval \<Rightarrow> bool" where
  "truthy JUndefined = False"
| "truthy JNull = False"
| "truthy (JBool b) = b"
| "truthy (JNum n) = (n \<noteq> 0)"
| "truthy (JStr s) = (s \<noteq> [])"
| "truthy (JArr xs) = True"
| "truthy (JObj kvs) = True"

text \<open>\<^verbatim>\<open>a || b\<close>\<close>

definition js_or :: "jsval \<Rightarrow> jsval \<Rightarrow> jsval" where
  "js_or a b = (if truthy a then a else b)"

text \<open>
  \<^verbatim>\<open>v.k\<close> for the property names the handlers read (none of them is inherited from a
  prototype): a TypeError on undefined and null, the own property of an object, and
  undefined on every other value.
\<close>

fun js_get :: "jsval \<Rightarrow> string \<Rightarrow> error + jsval" where
  "js_get JUndefined k = Inl TypeError"
| "js_get JNull k = Inl TypeError"
| "js_get (JObj kvs) k = Inr (case map_of kvs k of None \<Rightarrow> JUndefined | Some v \<Rightarrow> v)"
| "js_get v k = Inr JUndefined"

text \<open>Destructuring \<^verbatim>\<open>const { k } = obj\<close> of a parsed object.\<close>

definition field :: "(string \<times> jsval) list \<Rightarrow> string \<Rightarrow> jsval" where
  "field kvs k = (case map_of kvs k of None \<Rightarrow> JUndefined | Some v \<Rightarrow> v)"

subsection \<open>The string methods used by the order handler\<close>

text \<open>\<^verbatim>\<open>s.split(sep)\<close> for a separator of one character.\<close>

fun split_on :: "char \<Rightarrow> string \<Rightarrow> string list" where
  "split_on sep [] = [[]]"
| "split_on sep (c # cs) =
     (if c = sep then [] # split_on sep cs
      else (case split_on sep cs of
              [] \<Rightarrow> [[c]]
            | w # ws \<Rightarrow> (c # w) # ws))"

text \<open>\<^verbatim>\<open>parts.join(sep)\<close>\<close>

fun join_with :: "string \<Rightarrow> string list \<Rightarrow> string" where
  "join_with sep [] = []"
| "join_with sep [w] = w"
| "join_with sep (w # v # ws) = w @ sep @ join_with sep (v # ws)"

text \<open>\<^verbatim>\<open>parts[0]\<close>: undefined on the empty array.\<close>

definition at0 :: "string list \<Rightarrow> jsval" where
  "at0 parts = (case parts of [] \<Rightarrow> JUndefined | p # _ \<Rightarrow> JStr p)"

text \<open>\<^verbatim>\<open>v.split(' ')\<close>: only a string has the method.\<close>

fun js_split_space :: "jsval \<Rightarrow> error + string list" where
  "js_split_space (JStr s) = Inr (split_on CHR '' '' s)"
| "js_split_space v = Inl TypeError"

text \<open>\<^verbatim>\<open>v.substring(a, b)\<close>: only a string has the method; the bounds are swapped when
  \<open>a > b\<close>.\<close>

fun js_substring :: "jsval \<Rightarrow> nat \<Rightarrow> nat \<Rightarrow> error + string" where
  "js_substring (JStr s) a b = Inr (take (max a b - min a b) (drop (min a b) s))"
| "js_substring v a b = Inl TypeError"

subsection \<open>Numbers held in documents\<close>

text \<open>
  JavaScript numbers are IEEE doubles. The handlers compute with the numbers of the order
  and user documents, and this development follows them on the doubles that are integers
  of magnitude at most \<^verbatim>\<open>2^53\<close> and on NaN:
  \<^item> every such integer is a double, and a sum or difference of two of them is computed
    exactly when it is such an integer again;
  \<^item> for such an integer \<open>x\<close>, \<^verbatim>\<open>Math.floor(x / 100)\<close> is \<open>x div 100\<close>: rounding is monotone
    and keeps the integers \<open>x div 100\<close> and \<open>x div 100 + 1\<close>, and the quotient stays at
    least one hundredth below the latter, further than half the gap between doubles of
    that size;
  \<^item> NaN is what arithmetic makes of a missing field, and it stays NaN.

  \<open>Unknown\<close> stands for whatever else a field holds or a computation gives (a fraction, an
  infinity, a larger integer, a value that is no number): the development says nothing
  about such a value.
\<close>

datatype jsnum = Whole int | NaN | Unknown

definition safe :: "int \<Rightarrow> bool" where
  "safe n \<longleftrightarrow> \<bar>n\<bar> \<le> 9007199254740992"

definition whole :: "int \<Rightarrow> jsnum" where
  "whole n = (if safe n then Whole n else Unknown)"

text \<open>A field read for arithmetic: a missing field is \<^verbatim>\<open>undefined\<close>, which becomes NaN.\<close>

fun to_number :: "jsnum option \<Rightarrow> jsnum" where
  "to_number None = NaN"
| "to_number (Some n) = n"

text \<open>\<^verbatim>\<open>a - b\<close> and \<^verbatim>\<open>a + b\<close> on numbers.\<close>

fun num_sub :: "jsnum \<Rightarrow> jsnum \<Rightarrow> jsnum" where
  "num_sub NaN b = NaN"
| "num_sub a NaN = NaN"
| "num_sub (Whole x) (Whole y) = (if safe x \<and> safe y then whole (x - y) else Unknown)"
| "num_sub a b = Unknown"

fun num_add :: "jsnum \<Rightarrow> jsnum \<Rightarrow> jsnum" where
  "num_add NaN b = NaN"
| "num_add a NaN = NaN"
| "num_add (Whole x) (Whole y) = (if safe x \<and> safe y then whole (x + y) else Unknown)"
| "num_add a b = Unknown"

text \<open>\<^verbatim>\<open>Math.floor(x / 100)\<close>\<close>

fun floor_div_100 :: "jsnum \<Rightarrow> jsnum" where
  "floor_div_100 (Whole x) = (if safe x then Whole (x div 100) else Unknown)"
| "floor_div_100 NaN = NaN"
| "floor_div_100 Unknown = Unknown"

text \<open>\<^verbatim>\<open>userData.points || 0\<close>: a missing field, NaN and zero are falsy.\<close>

fun points_or_0 :: "jsnum option \<Rightarrow> jsnum" where
  "points_or_0 None = Whole 0"
| "points_or_0 (Some NaN) = Whole 0"
| "points_or_0 (Some (Whole x)) = (if x \<noteq> 0 then Whole x else Whole 0)"
| "points_or_0 (Some Unknown) = Unknown"

section \<open>Configuration, requests, responses\<close>

record config =
  API_URL :: string
  IPN_CALLBACK_URL :: string
  REDIRECT_URL :: string

text \<open>
  \<open>query\<close> is \<^verbatim>\<open>req.query\<close>, always a parsed object. \<open>body\<close> is \<^verbatim>\<open>req.body\<close>, which is
  whatever the platform hands over: an object when a body was parsed, and possibly
  \<^verbatim>\<open>undefined\<close> when the request had none. \<open>headers\<close> stands for everything else a caller
  sends.
\<close>

record request =
  query :: "(string \<times> jsval) list"
  body :: jsval
  headers :: "(string \<times> string) list"

datatype payload = JsonBody jsval | TextBody string

datatype response = Response nat payload

record billing_address =
  email_address :: jsval
  phone_number :: jsval
  first_name :: jsval
  last_name :: jsval

record order_request =
  id' :: jsval
  currency :: string
  amount :: jsval
  description :: string
  callback_url :: string
  notification_id :: string
  billing :: billing_address

section \<open>The collaborators\<close>

subsection \<open>The payment gateway\<close>

text \<open>
  What the provider answers to each of the three outbound calls: \<open>None\<close> when axios
  rejects, otherwise \<^verbatim>\<open>response.data\<close> (for the token call, \<^verbatim>\<open>response.data.token\<close>).
\<close>

record gateway =
  RequestToken :: "jsval option"
  SubmitOrderRequest :: "jsval \<Rightarrow> order_request \<Rightarrow> jsval option"
  GetTransactionStatus :: "jsval \<Rightarrow> jsval \<Rightarrow> jsval option"

subsection \<open>The document store\<close>

text \<open>
  The fields the handlers touch. A number field that is missing is \<open>None\<close>. An order
  without \<^verbatim>\<open>user.id\<close> behaves as one whose \<open>user_id\<close> is empty (the lookup of the user
  throws), and an order without \<^verbatim>\<open>status\<close> as one whose status is some other text than
  \<^verbatim>\<open>'Processing'\<close>.
\<close>

record payment_details =
  trackingId :: jsval
  pay_method :: jsval   \<comment> \<open>the field \<^verbatim>\<open>method\<close>\<close>
  confirmedOn :: nat

record order_doc =
  status :: string
  subtotal :: "jsnum option"
  pointsRedeemed :: "jsnum option"
  pointsEarned :: "jsnum option"
  user_id :: string
  paymentDetails :: "payment_details option"

record user_doc =
  points :: "jsnum option"

text \<open>
  The store: the documents below \<^verbatim>\<open>orders\<close> and below \<^verbatim>\<open>users\<close>, each under its path
  relative to the collection, and the field values that the client library lets
  \<^verbatim>\<open>update\<close> write. The library is not part of the repository; it throws on the values it
  does not take, \<^verbatim>\<open>undefined\<close> among them (the repository does not set
  \<^verbatim>\<open>ignoreUndefinedProperties\<close>).
\<close>

record firestore =
  orders :: "string \<rightharpoonup> order_doc"
  users :: "string \<rightharpoonup> user_doc"
  accepts :: "jsval \<Rightarrow> bool"

text \<open>The field maps passed to \<^verbatim>\<open>update\<close>: a field that is \<open>None\<close> is left as it is.\<close>

record order_patch =
  set_status :: "string option"
  set_pointsEarned :: "jsnum option"
  set_paymentDetails :: "payment_details option"

definition patch_order :: "order_patch \<Rightarrow> order_doc \<Rightarrow> order_doc" where
  "patch_order p d =
     d\<lparr> status := (case set_status p of None \<Rightarrow> status d | Some s \<Rightarrow> s),
        pointsEarned := (case set_pointsEarned p of None \<Rightarrow> pointsEarned d | Some e \<Rightarrow> Some e),
        paymentDetails :=
          (case set_paymentDetails p of None \<Rightarrow> paymentDetails d | Some pd \<Rightarrow> Some pd) \<rparr>"

datatype collection = Orders | Users

datatype db_op =
    Get collection string
  | UpdateOrder string order_patch
  | UpdateUser string jsnum      \<comment> \<open>\<^verbatim>\<open>update(userRef, { points })\<close>\<close>

text \<open>
  \<^verbatim>\<open>collection(c).doc(path)\<close>. The library refuses anything but a non-empty string without
  \<^verbatim>\<open>//\<close>, splits the path at its slashes, drops the empty segments (so a leading or
  trailing slash does not count), and refuses a path that does not end at a document: below
  a collection, that is a path with an even number of segments. The result is the path of
  the document relative to the collection.
\<close>

fun has_double_slash :: "string \<Rightarrow> bool" where
  "has_double_slash (a # b # cs) =
     ((a = CHR ''/'' \<and> b = CHR ''/'') \<or> has_double_slash (b # cs))"
| "has_double_slash cs = False"

fun doc :: "jsval \<Rightarrow> error + string" where
  "doc (JStr s) =
     (if s = [] \<or> has_double_slash s then Inl InvalidDocumentPath
      else (let segments = filter (\<lambda>w. w \<noteq> []) (split_on CHR ''/'' s) in
            if even (length segments) then Inl InvalidDocumentPath
            else Inr (join_with ''/'' segments)))"
| "doc v = Inl InvalidDocumentPath"

text \<open>One operation on the store; \<^verbatim>\<open>update\<close> fails on a document that does not exist
  and never creates one.\<close>

fun apply_op :: "firestore \<Rightarrow> db_op \<Rightarrow> error + firestore" where
  "apply_op db (Get c k) = Inr db"
| "apply_op db (UpdateOrder k p) =
     (case orders db k of
        None \<Rightarrow> Inl DocumentMissing
      | Some d \<Rightarrow> Inr (db\<lparr>orders := (orders db)(k \<mapsto> patch_order p d)\<rparr>))"
| "apply_op db (UpdateUser k n) =
     (case users db k of
        None \<Rightarrow> Inl DocumentMissing
      | Some u \<Rightarrow> Inr (db\<lparr>users := (users db)(k \<mapsto> u\<lparr>points := Some n\<rparr>)\<rparr>))"

text \<open>The commit of a transaction applies its buffered operations in order; the caller
  keeps the old store when any of them fails.\<close>

fun commit :: "firestore \<Rightarrow> db_op list \<Rightarrow> error + firestore" where
  "commit db [] = Inr db"
| "commit db (x # xs) = (case apply_op db x of Inl e \<Rightarrow> Inl e | Inr db' \<Rightarrow> commit db' xs)"

text \<open>
  \<^verbatim>\<open>db.runTransaction(fn)\<close>: the function reads the store and buffers its writes; it
  returns the operations it issued and the error it threw, if any. Nothing is written when
  it throws.
\<close>

definition runTransaction ::
  "firestore \<Rightarrow> (firestore \<Rightarrow> db_op list \<times> error option) \<Rightarrow> (error + firestore) \<times> db_op list" where
  "runTransaction db fn =
     (case fn db of
        (ops, Some e) \<Rightarrow> (Inl e, ops)
      | (ops, None) \<Rightarrow> (commit db ops, ops))"

subsection \<open>What a handler does besides answering\<close>

datatype event =
    Call_RequestToken
  | Call_SubmitOrderRequest jsval order_request
  | Call_GetTransactionStatus jsval jsval
  | InTransaction db_op
  | Direct db_op
  | ConsoleError string

section \<open>The gateway client\<close>

definition getPesapalAuthToken :: "gateway \<Rightarrow> (error + jsval) \<times> event list" where
  "getPesapalAuthToken gw =
     (case RequestToken gw of
        None \<Rightarrow> (Inl AuthError, [Call_RequestToken, ConsoleError ''Error getting Pesapal token:''])
      | Some token \<Rightarrow> (Inr token, [Call_RequestToken]))"

section \<open>Order submission\<close>

text \<open>The object literal \<^verbatim>\<open>pesapalOrderData\<close>, its properties evaluated in order.\<close>

definition pesapalOrderData :: "config \<Rightarrow> jsval \<Rightarrow> jsval \<Rightarrow> error + order_request" where
  "pesapalOrderData cfg order orderId =
     (case js_get order ''total'' of Inl e \<Rightarrow> Inl e | Inr order_total \<Rightarrow>
     (case js_substring orderId 0 8 of Inl e \<Rightarrow> Inl e | Inr prefix \<Rightarrow>
     (case js_get order ''user'' of Inl e \<Rightarrow> Inl e | Inr user \<Rightarrow>
     (case js_get user ''email'' of Inl e \<Rightarrow> Inl e | Inr email \<Rightarrow>
     (case js_get user ''phone'' of Inl e \<Rightarrow> Inl e | Inr phone \<Rightarrow>
     (case js_get user ''name'' of Inl e \<Rightarrow> Inl e | Inr name \<Rightarrow>
     (case js_split_space name of Inl e \<Rightarrow> Inl e | Inr parts \<Rightarrow>
        Inr \<lparr> id' = orderId,
              currency = ''KES'',
              amount = order_total,
              description = ''Payment for Order #'' @ prefix,
              callback_url = REDIRECT_URL cfg,
              notification_id = IPN_CALLBACK_URL cfg,
              billing = \<lparr> email_address = email,
                          phone_number = phone,
                          first_name = at0 parts,
                          last_name =
                            js_or (JStr (join_with '' '' (drop 1 parts))) (at0 parts) \<rparr> \<rparr>)))))))"

definition missing_order_data :: response where
  "missing_order_data =
     Response 400 (JsonBody (JObj [(''success'', JBool False),
                                    (''message'', JStr ''Missing order data.'')]))"

definition payment_request_failed :: response where
  "payment_request_failed =
     Response 500 (JsonBody (JObj [(''success'', JBool False),
        (''message'', JStr ''Server error while creating payment request.'')]))"

text \<open>
  The \<^verbatim>\<open>try\<close> block of the order handler: the payment url, or the error thrown. The
  condition \<^verbatim>\<open>response.data && response.data.redirect_url\<close> reads the url only of a truthy
  reply; the \<^verbatim>\<open>else\<close> branch reads \<^verbatim>\<open>response.data.error\<close> and throws.
\<close>

definition order_try :: "config \<Rightarrow> gateway \<Rightarrow> jsval \<Rightarrow> jsval \<Rightarrow> (error + jsval) \<times> event list" where
  "order_try cfg gw order orderId =
     (case getPesapalAuthToken gw of
        (Inl e, evs) \<Rightarrow> (Inl e, evs)
      | (Inr authToken, evs) \<Rightarrow>
          (case pesapalOrderData cfg order orderId of
             Inl e \<Rightarrow> (Inl e, evs)
           | Inr data \<Rightarrow>
               (let evs' = evs @ [Call_SubmitOrderRequest authToken data] in
                case SubmitOrderRequest gw authToken data of
                  None \<Rightarrow> (Inl RequestFailed, evs')
                | Some reply \<Rightarrow>
                    (case (if truthy reply then js_get reply ''redirect_url'' else Inr reply) of
                       Inl e \<Rightarrow> (Inl e, evs')
                     | Inr has_url \<Rightarrow>
                         if truthy has_url then
                           (case js_get reply ''redirect_url'' of
                              Inl e \<Rightarrow> (Inl e, evs')
                            | Inr url \<Rightarrow> (Inr url, evs'))
                         else
                           (case js_get reply ''error'' of
                              Inl e \<Rightarrow> (Inl e, evs')
                            | Inr err \<Rightarrow> (Inl SubmissionError, evs'))))))"

text \<open>
  \<^verbatim>\<open>app.post('/api/pesapal/order')\<close> and \<^verbatim>\<open>handleOrder\<close> (the two are the same code). The
  destructuring of \<^verbatim>\<open>req.body\<close> stands before the \<^verbatim>\<open>try\<close>: on a body that is
  \<^verbatim>\<open>undefined\<close> or \<^verbatim>\<open>null\<close> the handler throws and writes no response (\<open>Inl\<close>).
\<close>

definition handleOrder :: "config \<Rightarrow> gateway \<Rightarrow> request \<Rightarrow> (error + response) \<times> event list" where
  "handleOrder cfg gw req =
     (case js_get (body req) ''order'' of
        Inl e \<Rightarrow> (Inl e, [])
      | Inr order \<Rightarrow>
     (case js_get (body req) ''orderId'' of
        Inl e \<Rightarrow> (Inl e, [])
      | Inr orderId \<Rightarrow>
          (if \<not> truthy order \<or> \<not> truthy orderId then (Inr missing_order_data, [])
           else (case order_try cfg gw order orderId of
                   (Inr url, evs) \<Rightarrow>
                     (Inr (Response 200 (JsonBody (JObj [(''success'', JBool True),
                                                         (''paymentUrl'', url)]))),
                      evs)
                 | (Inl e, evs) \<Rightarrow>
                     (Inr payment_request_failed,
                      evs @ [ConsoleError ''Pesapal order submission failed:''])))))"

section \<open>The payment notification callback\<close>

text \<open>
  The function passed to \<^verbatim>\<open>db.runTransaction\<close>: it reads the order, returns at once when
  the order is already \<^verbatim>\<open>'Processing'\<close>, and otherwise reads the user and buffers the two
  updates. \<open>data\<close> is \<^verbatim>\<open>statusResponse.data\<close> and \<open>now\<close> is \<^verbatim>\<open>new Date()\<close>. The first
  \<^verbatim>\<open>update\<close> throws when the store does not take the tracking id or the payment method
  as a field value.
\<close>

definition callback_txn ::
  "jsval \<Rightarrow> jsval \<Rightarrow> nat \<Rightarrow> string \<Rightarrow> firestore \<Rightarrow> db_op list \<times> error option" where
  "callback_txn OrderTrackingId data now orderId db =
     (case orders db orderId of
        None \<Rightarrow> ([Get Orders orderId], Some OrderNotFound)
      | Some orderData \<Rightarrow>
          if status orderData = ''Processing'' then ([Get Orders orderId], None)
          else
            (case doc (JStr (user_id orderData)) of
               Inl e \<Rightarrow> ([Get Orders orderId], Some e)
             | Inr userId \<Rightarrow>
                 (case users db userId of
                    None \<Rightarrow> ([Get Orders orderId, Get Users userId], Some UserNotFound)
                  | Some userData \<Rightarrow>
                      (let earned = floor_div_100 (to_number (subtotal orderData));
                           newPointsTotal =
                             num_add
                               (num_sub (points_or_0 (points userData))
                                        (to_number (pointsRedeemed orderData)))
                               earned
                       in case js_get data ''payment_method'' of
                            Inl e \<Rightarrow> ([Get Orders orderId, Get Users userId], Some e)
                          | Inr payment_method \<Rightarrow>
                              if accepts db OrderTrackingId \<and> accepts db payment_method then
                                ([Get Orders orderId, Get Users userId,
                                  UpdateOrder orderId
                                    \<lparr> set_status = Some ''Processing'',
                                      set_pointsEarned = Some earned,
                                      set_paymentDetails =
                                        Some \<lparr> trackingId = OrderTrackingId,
                                               pay_method = payment_method,
                                               confirmedOn = now \<rparr> \<rparr>,
                                  UpdateUser userId newPointsTotal],
                                 None)
                              else
                                ([Get Orders orderId, Get Users userId], Some InvalidValue)))))"

definition payment_failed_patch :: order_patch where
  "payment_failed_patch =
     \<lparr> set_status = Some ''Payment Failed'', set_pointsEarned = None, set_paymentDetails = None \<rparr>"

text \<open>The \<^verbatim>\<open>try\<close> block of the callback handler, after the two query parameters have
  been found truthy.\<close>

definition callback_try ::
  "gateway \<Rightarrow> nat \<Rightarrow> jsval \<Rightarrow> jsval \<Rightarrow> firestore \<Rightarrow> error option \<times> firestore \<times> event list" where
  "callback_try gw now OrderTrackingId OrderMerchantReference db =
     (case getPesapalAuthToken gw of
        (Inl e, evs) \<Rightarrow> (Some e, db, evs)
      | (Inr authToken, evs) \<Rightarrow>
          (let evs1 = evs @ [Call_GetTransactionStatus authToken OrderTrackingId] in
           case GetTransactionStatus gw authToken OrderTrackingId of
             None \<Rightarrow> (Some RequestFailed, db, evs1)
           | Some data \<Rightarrow>
               (case js_get data ''status_code'' of
                  Inl e \<Rightarrow> (Some e, db, evs1)
                | Inr status_code \<Rightarrow>
                    if status_code = JNum 1 then
                      (case doc OrderMerchantReference of
                         Inl e \<Rightarrow> (Some e, db, evs1)
                       | Inr orderId \<Rightarrow>
                           (case runTransaction db (callback_txn OrderTrackingId data now orderId) of
                              (Inl e, ops) \<Rightarrow> (Some e, db, evs1 @ map InTransaction ops)
                            | (Inr db', ops) \<Rightarrow> (None, db', evs1 @ map InTransaction ops)))
                    else
                      (case doc OrderMerchantReference of
                         Inl e \<Rightarrow> (Some e, db, evs1)
                       | Inr orderId \<Rightarrow>
                           (case apply_op db (UpdateOrder orderId payment_failed_patch) of
                              Inl e \<Rightarrow>
                                (Some e, db, evs1 @ [Direct (UpdateOrder orderId payment_failed_patch)])
                            | Inr db' \<Rightarrow>
                                (None, db', evs1 @ [Direct (UpdateOrder orderId payment_failed_patch)]))))))"

definition callback_received :: response where
  "callback_received = Response 200 (TextBody ''Callback received successfully.'')"

definition error_processing_ipn :: response where
  "error_processing_ipn = Response 500 (TextBody ''Error processing IPN.'')"

text \<open>\<^verbatim>\<open>app.get('/api/pesapal/callback')\<close> and \<^verbatim>\<open>handleCallback\<close> (the two are the same
  code): the answer, the store afterwards, and what was done.\<close>

definition handleCallback ::
  "gateway \<Rightarrow> nat \<Rightarrow> request \<Rightarrow> firestore \<Rightarrow> response \<times> firestore \<times> event list" where
  "handleCallback gw now req db =
     (let OrderTrackingId = field (query req) ''OrderTrackingId'';
          OrderMerchantReference = field (query req) ''OrderMerchantReference'' in
      if \<not> truthy OrderTrackingId \<or> \<not> truthy OrderMerchantReference
      then (Response 400 (TextBody ''Invalid IPN request.''), db, [])
      else case callback_try gw now OrderTrackingId OrderMerchantReference db of
             (None, db', evs) \<Rightarrow> (callback_received, db', evs)
           | (Some e, db', evs) \<Rightarrow>
               (error_processing_ipn, db', evs @ [ConsoleError ''Error in IPN callback handler:'']))"

section \<open>The status query\<close>

text \<open>The chain of \<^verbatim>\<open>if\<close> / \<^verbatim>\<open>else if\<close> of \<^verbatim>\<open>app.get('/api/pesapal/transaction-status')\<close>.\<close>

definition status_of_code_express :: "jsval \<Rightarrow> string" where
  "status_of_code_express status_code =
     (if status_code = JNum 1 then ''COMPLETED''
      else if status_code = JNum 2 \<or> status_code = JNum 0 then ''FAILED''
      else if status_code = JNum 3 then ''PENDING''
      else ''INVALID'')"

text \<open>The three separate \<^verbatim>\<open>if\<close> statements of \<^verbatim>\<open>handleTransactionStatus\<close>, each
  assigning to \<^verbatim>\<open>status\<close>.\<close>

definition status_of_code_vercel :: "jsval \<Rightarrow> string" where
  "status_of_code_vercel status_code =
     (let st0 = ''INVALID'';
          st1 = (if status_code = JNum 1 then ''COMPLETED'' else st0);
          st2 = (if status_code = JNum 2 \<or> status_code = JNum 0 then ''FAILED'' else st1);
          st3 = (if status_code = JNum 3 then ''PENDING'' else st2)
      in st3)"

text \<open>The handler, with the mapping of the status code as a parameter: the two files
  differ in nothing else.\<close>

definition transaction_status ::
  "(jsval \<Rightarrow> string) \<Rightarrow> gateway \<Rightarrow> request \<Rightarrow> response \<times> event list" where
  "transaction_status status_of gw req =
     (let pesapalTrackingId = field (query req) ''pesapalTrackingId'' in
      if \<not> truthy pesapalTrackingId
      then (Response 400 (JsonBody (JObj [(''status'', JStr ''INVALID''),
                                          (''description'', JStr ''Missing tracking ID.'')])), [])
      else
        (let failed =
               Response 500 (JsonBody (JObj [(''status'', JStr ''FAILED''),
                 (''description'', JStr ''Server error while verifying status.'')]));
             logged = [ConsoleError ''Error getting transaction status:'']
         in case getPesapalAuthToken gw of
              (Inl e, evs) \<Rightarrow> (failed, evs @ logged)
            | (Inr authToken, evs) \<Rightarrow>
                (let evs1 = evs @ [Call_GetTransactionStatus authToken pesapalTrackingId] in
                 case GetTransactionStatus gw authToken pesapalTrackingId of
                   None \<Rightarrow> (failed, evs1 @ logged)
                 | Some data \<Rightarrow>
                     (case js_get data ''status_code'' of
                        Inl e \<Rightarrow> (failed, evs1 @ logged)
                      | Inr status_code \<Rightarrow>
                     (case js_get data ''payment_method'' of
                        Inl e \<Rightarrow> (failed, evs1 @ logged)
                      | Inr payment_method \<Rightarrow>
                     (case js_get data ''description'' of
                        Inl e \<Rightarrow> (failed, evs1 @ logged)
                      | Inr descr \<Rightarrow>
                          (Response 200 (JsonBody (JObj [(''status'', JStr (status_of status_code)),
                                                         (''payment_method'', payment_method),
                                                         (''description'', descr)])),
                           evs1)))))))"

definition transaction_status_express :: "gateway \<Rightarrow> request \<Rightarrow> response \<times> event list" where
  "transaction_status_express = transaction_status status_of_code_express"

definition handleTransactionStatus :: "gateway \<Rightarrow> request \<Rightarrow> response \<times> event list" where
  "handleTransactionStatus = transaction_status status_of_code_vercel"

section \<open>Vocabulary of the properties\<close>

text \<open>
  The request is a callback for tracking id \<open>tid\<close> and for the order document \<open>oid\<close>:
  the tracking id passes the handler's check and the merchant reference is a document path
  that \<^verbatim>\<open>doc\<close> resolves to \<open>oid\<close>.
\<close>

definition callback_for :: "request \<Rightarrow> jsval \<Rightarrow> string \<Rightarrow> bool" where
  "callback_for req tid oid \<longleftrightarrow>
     field (query req) ''OrderTrackingId'' = tid \<and> truthy tid \<and>
     doc (field (query req) ''OrderMerchantReference'') = Inr oid"

text \<open>The gateway hands out \<open>tok\<close> and answers the status query for \<open>tid\<close> with \<open>data\<close>,
  whose status code is \<open>code\<close>.\<close>

definition gateway_answers :: "gateway \<Rightarrow> jsval \<Rightarrow> jsval \<Rightarrow> jsval \<Rightarrow> jsval \<Rightarrow> bool" where
  "gateway_answers gw tok tid data code \<longleftrightarrow>
     RequestToken gw = Some tok \<and> GetTransactionStatus gw tok tid = Some data \<and>
     js_get data ''status_code'' = Inr code"

text \<open>The user document an order refers to, when its reference resolves and the document
  exists.\<close>

definition referenced_user :: "firestore \<Rightarrow> order_doc \<Rightarrow> user_doc option" where
  "referenced_user db d =
     (case doc (JStr (user_id d)) of Inl e \<Rightarrow> None | Inr uid \<Rightarrow> users db uid)"

text \<open>The two documents as a committed completed callback leaves them.\<close>

definition completed_order :: "jsval \<Rightarrow> jsval \<Rightarrow> nat \<Rightarrow> order_doc \<Rightarrow> order_doc" where
  "completed_order tid pm now d =
     d\<lparr> status := ''Processing'',
        pointsEarned := Some (floor_div_100 (to_number (subtotal d))),
        paymentDetails := Some \<lparr> trackingId = tid, pay_method = pm, confirmedOn = now \<rparr> \<rparr>"

definition credited_user :: "order_doc \<Rightarrow> user_doc \<Rightarrow> user_doc" where
  "credited_user d u =
     u\<lparr> points := Some (num_add (num_sub (points_or_0 (points u))
                                          (to_number (pointsRedeemed d)))
                                 (floor_div_100 (to_number (subtotal d)))) \<rparr>"

text \<open>The status enumeration in the specification's words: 1 is COMPLETED, 0 and 2 are
  FAILED, 3 is PENDING, anything else is INVALID.\<close>

definition getStatusEnum :: "jsval \<Rightarrow> string" where
  "getStatusEnum code =
     (if code = JNum 1 then ''COMPLETED''
      else if code = JNum 0 then ''FAILED''
      else if code = JNum 2 then ''FAILED''
      else if code = JNum 3 then ''PENDING''
      else ''INVALID'')"

text \<open>The two parts of a full name in the specification's words: what stands before the
  first space, and the remainder after it.\<close>

definition before_first_space :: "string \<Rightarrow> string" where
  "before_first_space name = takeWhile (\<lambda>c. c \<noteq> CHR '' '') name"

definition after_first_space :: "string \<Rightarrow> string" where
  "after_first_space name = drop 1 (dropWhile (\<lambda>c. c \<noteq> CHR '' '') name)"

subsection \<open>Concrete scenarios\<close>

definition cfg0 :: config where
  "cfg0 = \<lparr> API_URL = ''https://cybqa.pesapal.com/pesapalv3/api'',
            IPN_CALLBACK_URL = ''http://localhost:3000/api/pesapal/callback'',
            REDIRECT_URL = ''http://localhost:3000/#/pesapal-callback'' \<rparr>"

text \<open>A gateway that hands out a token, answers every status query with the given status
  code, and answers every order submission with a redirect url.\<close>

definition status_data :: "jsval \<Rightarrow> jsval" where
  "status_data code =
     JObj [(''status_code'', code), (''payment_method'', JStr ''MPESA''),
           (''description'', JStr ''from the gateway'')]"

definition gw_reporting :: "jsval \<Rightarrow> gateway" where
  "gw_reporting code =
     \<lparr> RequestToken = Some (JStr ''tok''),
       SubmitOrderRequest = (\<lambda>tok r. Some (JObj [(''redirect_url'', JStr ''https://pay/1'')])),
       GetTransactionStatus = (\<lambda>tok tid. Some (status_data code)) \<rparr>"

text \<open>A gateway whose completed reply carries no payment method, and one that is down.\<close>

definition gw_bare :: gateway where
  "gw_bare =
     \<lparr> RequestToken = Some (JStr ''tok''),
       SubmitOrderRequest = (\<lambda>tok r. None),
       GetTransactionStatus = (\<lambda>tok tid. Some (JObj [(''status_code'', JNum 1)])) \<rparr>"

definition gw_down :: gateway where
  "gw_down =
     \<lparr> RequestToken = None,
       SubmitOrderRequest = (\<lambda>tok r. None),
       GetTransactionStatus = (\<lambda>tok tid. None) \<rparr>"

definition ipn_plain :: request where
  "ipn_plain =
     \<lparr> query = [(''OrderTrackingId'', JStr ''t-1''), (''OrderMerchantReference'', JStr ''o1'')],
       body = JUndefined, headers = [] \<rparr>"

text \<open>The same notification, with a caller who also asserts the outcome.\<close>

definition ipn_forged :: request where
  "ipn_forged =
     \<lparr> query = [(''OrderTrackingId'', JStr ''t-1''), (''OrderMerchantReference'', JStr ''o1''),
                (''status_code'', JStr ''1''), (''status'', JStr ''COMPLETED'')],
       body = JObj [(''status_code'', JNum 1)],
       headers = [(''X-Payment-Status'', ''COMPLETED'')] \<rparr>"

text \<open>The same notification again, with the merchant reference written as a path.\<close>

definition ipn_slash :: request where
  "ipn_slash =
     \<lparr> query = [(''OrderTrackingId'', JStr ''t-1''), (''OrderMerchantReference'', JStr ''/o1'')],
       body = JUndefined, headers = [] \<rparr>"

definition pending_order :: order_doc where
  "pending_order =
     \<lparr> status = ''Pending'', subtotal = Some (Whole 250), pointsRedeemed = Some (Whole 10),
       pointsEarned = None, user_id = ''u1'', paymentDetails = None \<rparr>"

definition paid_order :: order_doc where
  "paid_order =
     \<lparr> status = ''Processing'', subtotal = Some (Whole 250), pointsRedeemed = Some (Whole 10),
       pointsEarned = Some (Whole 2), user_id = ''u1'',
       paymentDetails = Some \<lparr> trackingId = JStr ''t-1'', pay_method = JStr ''MPESA'',
                                confirmedOn = 7 \<rparr> \<rparr>"

text \<open>The scenario stores take every value without \<^verbatim>\<open>undefined\<close> in it.\<close>

fun defined_value :: "jsval \<Rightarrow> bool" where
  "defined_value JUndefined = False"
| "defined_value (JArr xs) = list_all defined_value xs"
| "defined_value (JObj kvs) = list_all (\<lambda>(k, v). defined_value v) kvs"
| "defined_value v = True"

definition db_pending :: firestore where
  "db_pending =
     \<lparr> orders = [''o1'' \<mapsto> pending_order], users = [''u1'' \<mapsto> \<lparr> points = Some (Whole 40) \<rparr>],
       accepts = defined_value \<rparr>"

definition db_paid :: firestore where
  "db_paid =
     \<lparr> orders = [''o1'' \<mapsto> paid_order], users = [''u1'' \<mapsto> \<lparr> points = Some (Whole 32) \<rparr>],
       accepts = defined_value \<rparr>"

text \<open>A paid order whose user document is gone, and a pending one likewise.\<close>

definition db_paid_no_user :: firestore where
  "db_paid_no_user =
     \<lparr> orders = [''o1'' \<mapsto> paid_order], users = Map.empty, accepts = defined_value \<rparr>"

definition db_pending_no_user :: firestore where
  "db_pending_no_user =
     \<lparr> orders = [''o1'' \<mapsto> pending_order], users = Map.empty, accepts = defined_value \<rparr>"

definition order_of :: "string \<Rightarrow> jsval" where
  "order_of name =
     JObj [(''total'', JNum 500),
           (''user'', JObj [(''email'', JStr ''a@b.com''), (''phone'', JStr ''1''),
                            (''name'', JStr name)])]"

text \<open>An order with a name and nothing else.\<close>

definition order_name_only :: jsval where
  "order_name_only = JObj [(''user'', JObj [(''name'', JStr ''Jo Doe'')])]"

definition submission :: "jsval \<Rightarrow> jsval \<Rightarrow> request" where
  "submission order orderId =
     \<lparr> query = [], body = JObj [(''order'', order), (''orderId'', orderId)], headers = [] \<rparr>"

definition status_poll :: request where
  "status_poll =
     \<lparr> query = [(''pesapalTrackingId'', JStr ''t-1'')], body = JUndefined, headers = [] \<rparr>"

section \<open>Properties of the handlers\<close>

subsection \<open>Unfolding the callback handler\<close>

lemma js_get_not_nullish: "js_get data k = Inr v \<Longrightarrow> \<exists>w. js_get data k' = Inr w"
  by (cases data) auto

lemma doc_truthy: "doc v = Inr k \<Longrightarrow> truthy v"
  by (cases v) (auto split: if_splits)

lemma handleCallback_completed:
  assumes "callback_for req tid oid" and "gateway_answers gw tok tid data (JNum 1)"
  shows "handleCallback gw now req db =
     (case runTransaction db (callback_txn tid data now oid) of
        (Inl e, ops) \<Rightarrow>
          (error_processing_ipn, db,
           [Call_RequestToken, Call_GetTransactionStatus tok tid] @ map InTransaction ops
             @ [ConsoleError ''Error in IPN callback handler:''])
      | (Inr db', ops) \<Rightarrow>
          (callback_received, db',
           [Call_RequestToken, Call_GetTransactionStatus tok tid] @ map InTransaction ops))"
proof -
  from assms(1) have "truthy (field (query req) ''OrderMerchantReference'')"
    unfolding callback_for_def using doc_truthy by blast
  with assms show ?thesis
    by (simp add: callback_for_def gateway_answers_def handleCallback_def callback_try_def
        getPesapalAuthToken_def Let_def split: prod.splits sum.splits)
qed

lemma handleCallback_not_completed:
  assumes "callback_for req tid oid" and "gateway_answers gw tok tid data code"
    and "code \<noteq> JNum 1"
  shows "handleCallback gw now req db =
     (case orders db oid of
        None \<Rightarrow>
          (error_processing_ipn, db,
           [Call_RequestToken, Call_GetTransactionStatus tok tid,
            Direct (UpdateOrder oid payment_failed_patch),
            ConsoleError ''Error in IPN callback handler:''])
      | Some d \<Rightarrow>
          (callback_received, db\<lparr>orders := (orders db)(oid \<mapsto> d\<lparr>status := ''Payment Failed''\<rparr>)\<rparr>,
           [Call_RequestToken, Call_GetTransactionStatus tok tid,
            Direct (UpdateOrder oid payment_failed_patch)]))"
proof -
  from assms(1) have "truthy (field (query req) ''OrderMerchantReference'')"
    unfolding callback_for_def using doc_truthy by blast
  with assms show ?thesis
    by (simp add: callback_for_def gateway_answers_def handleCallback_def callback_try_def
        getPesapalAuthToken_def Let_def patch_order_def payment_failed_patch_def
        split: option.splits)
qed

lemma scenario_doc [simp]:
  "doc (JStr ''o1'') = Inr ''o1''" "doc (JStr ''/o1'') = Inr ''o1''"
  "doc (JStr ''u1'') = Inr ''u1''"
  by simp_all

lemma scenario_callback [simp]:
  "callback_for ipn_plain (JStr ''t-1'') ''o1''"
  "callback_for ipn_forged (JStr ''t-1'') ''o1''"
  "callback_for ipn_slash (JStr ''t-1'') ''o1''"
  by (simp_all add: callback_for_def ipn_plain_def ipn_forged_def ipn_slash_def field_def
      del: doc.simps)

lemma scenario_gateway [simp]:
  "gateway_answers (gw_reporting code) (JStr ''tok'') tid (status_data code) code"
  by (simp add: gateway_answers_def gw_reporting_def status_data_def)

subsection \<open>The outcomes of the transaction\<close>

lemma txn_order_absent:
  "orders db oid = None \<Longrightarrow>
   runTransaction db (callback_txn tid data now oid) = (Inl OrderNotFound, [Get Orders oid])"
  by (simp add: runTransaction_def callback_txn_def)

lemma txn_already_processing:
  "orders db oid = Some d \<Longrightarrow> status d = ''Processing'' \<Longrightarrow>
   runTransaction db (callback_txn tid data now oid) = (Inr db, [Get Orders oid])"
  by (simp add: runTransaction_def callback_txn_def)

lemma txn_user_unreachable:
  "orders db oid = Some d \<Longrightarrow> status d \<noteq> ''Processing'' \<Longrightarrow> referenced_user db d = None \<Longrightarrow>
   \<exists>e ops. runTransaction db (callback_txn tid data now oid) = (Inl e, ops)"
  by (auto simp add: runTransaction_def callback_txn_def referenced_user_def
      simp del: doc.simps split: sum.splits)

lemma txn_refused:
  "orders db oid = Some d \<Longrightarrow> status d \<noteq> ''Processing'' \<Longrightarrow>
   referenced_user db d = Some u \<Longrightarrow> js_get data ''payment_method'' = Inr pm \<Longrightarrow>
   \<not> (accepts db tid \<and> accepts db pm) \<Longrightarrow>
   \<exists>e ops. runTransaction db (callback_txn tid data now oid) = (Inl e, ops)"
  by (auto simp add: runTransaction_def callback_txn_def referenced_user_def Let_def
      simp del: doc.simps split: sum.splits)

lemma txn_applied:
  assumes "orders db oid = Some d" and "status d \<noteq> ''Processing''"
    and "doc (JStr (user_id d)) = Inr uid" and "users db uid = Some u"
    and "js_get data ''payment_method'' = Inr pm"
    and "accepts db tid" and "accepts db pm"
  shows "runTransaction db (callback_txn tid data now oid) =
     (Inr (db\<lparr> orders := (orders db)(oid \<mapsto> completed_order tid pm now d),
               users := (users db)(uid \<mapsto> credited_user d u) \<rparr>),
      [Get Orders oid, Get Users uid,
       UpdateOrder oid \<lparr> set_status = Some ''Processing'',
                         set_pointsEarned = Some (floor_div_100 (to_number (subtotal d))),
                         set_paymentDetails =
                           Some \<lparr> trackingId = tid, pay_method = pm, confirmedOn = now \<rparr> \<rparr>,
       UpdateUser uid
         (num_add (num_sub (points_or_0 (points u)) (to_number (pointsRedeemed d)))
                  (floor_div_100 (to_number (subtotal d))))])"
  using assms
  by (simp add: runTransaction_def callback_txn_def Let_def patch_order_def
      completed_order_def credited_user_def del: doc.simps split: option.splits)

text \<open>What a completed callback leaves behind, case by case.\<close>

lemma completed_callback_cases:
  assumes cb: "callback_for req tid oid" and gw: "gateway_answers gw tok tid data (JNum 1)"
    and pm: "js_get data ''payment_method'' = Inr pm"
    and run: "handleCallback gw now req db = (resp, db', evs)"
  shows "(resp = error_processing_ipn \<and> db' = db \<and>
            (orders db oid = None \<or>
             (\<exists>d. orders db oid = Some d \<and> status d \<noteq> ''Processing'' \<and>
                  (referenced_user db d = None \<or> \<not> (accepts db tid \<and> accepts db pm))))) \<or>
         (resp = callback_received \<and> db' = db \<and>
            (\<exists>d. orders db oid = Some d \<and> status d = ''Processing'') \<and>
            evs = [Call_RequestToken, Call_GetTransactionStatus tok tid,
                   InTransaction (Get Orders oid)]) \<or>
         (resp = callback_received \<and> accepts db tid \<and> accepts db pm \<and>
            (\<exists>d uid u. orders db oid = Some d \<and> status d \<noteq> ''Processing'' \<and>
               doc (JStr (user_id d)) = Inr uid \<and> users db uid = Some u \<and>
               db' = db\<lparr> orders := (orders db)(oid \<mapsto> completed_order tid pm now d),
                         users := (users db)(uid \<mapsto> credited_user d u) \<rparr>))"
proof -
  note unfolded = handleCallback_completed [OF cb gw, of now db]
  show ?thesis
  proof (cases "orders db oid")
    case None
    from txn_order_absent [OF None, of tid data now] unfolded run None
    show ?thesis by simp
  next
    case (Some d)
    show ?thesis
    proof (cases "status d = ''Processing''")
      case True
      from txn_already_processing [OF Some True, of tid data now] unfolded run Some True
      show ?thesis by simp
    next
      case False
      show ?thesis
      proof (cases "referenced_user db d")
        case None
        from txn_user_unreachable [OF Some False None, of tid data now]
        obtain e ops where "runTransaction db (callback_txn tid data now oid) = (Inl e, ops)"
          by blast
        with unfolded run Some False None show ?thesis by auto
      next
        case user: (Some u)
        then obtain uid where uid: "doc (JStr (user_id d)) = Inr uid" "users db uid = Some u"
          by (auto simp add: referenced_user_def simp del: doc.simps split: sum.splits)
        show ?thesis
        proof (cases "accepts db tid \<and> accepts db pm")
          case True
          then have acc: "accepts db tid" "accepts db pm" by simp_all
          from txn_applied [OF Some False uid pm acc, of now] unfolded run Some False uid acc
          show ?thesis by (auto simp del: doc.simps)
        next
          case refused: False
          from txn_refused [OF Some False user pm refused, of now]
          obtain e ops where "runTransaction db (callback_txn tid data now oid) = (Inl e, ops)"
            by blast
          with unfolded run Some False refused show ?thesis by auto
        qed
      qed
    qed
  qed
qed

lemma responses_differ [simp]:
  "callback_received \<noteq> error_processing_ipn" "error_processing_ipn \<noteq> callback_received"
  by (simp_all add: callback_received_def error_processing_ipn_def)

subsection \<open>The scenarios, evaluated\<close>


lemma scenario_accepts [simp]:
  "accepts db_pending (JStr s)" "accepts db_paid (JStr s)"
  "\<not> accepts db_pending JUndefined"
  by (simp_all add: db_pending_def db_paid_def)

lemma run_db_pending_completed:
  "handleCallback (gw_reporting (JNum 1)) 7 ipn_plain db_pending =
     (callback_received, db_paid,
      [Call_RequestToken, Call_GetTransactionStatus (JStr ''tok'') (JStr ''t-1''),
       InTransaction (Get Orders ''o1''), InTransaction (Get Users ''u1''),
       InTransaction (UpdateOrder ''o1''
         \<lparr> set_status = Some ''Processing'', set_pointsEarned = Some (Whole 2),
           set_paymentDetails = Some \<lparr> trackingId = JStr ''t-1'', pay_method = JStr ''MPESA'',
                                        confirmedOn = 7 \<rparr> \<rparr>),
       InTransaction (UpdateUser ''u1'' (Whole 32))])"
proof -
  have ord: "orders db_pending ''o1'' = Some pending_order"
    and fresh: "status pending_order \<noteq> ''Processing''"
    and uid: "doc (JStr (user_id pending_order)) = Inr ''u1''"
    and usr: "users db_pending ''u1'' = Some \<lparr> points = Some (Whole 40) \<rparr>"
    and pm: "js_get (status_data (JNum 1)) ''payment_method'' = Inr (JStr ''MPESA'')"
    by (simp_all add: db_pending_def pending_order_def status_data_def)
  have after: "db_pending\<lparr> orders := (orders db_pending)(''o1'' \<mapsto>
                   completed_order (JStr ''t-1'') (JStr ''MPESA'') 7 pending_order),
                 users := (users db_pending)(''u1'' \<mapsto>
                   credited_user pending_order \<lparr> points = Some (Whole 40) \<rparr>) \<rparr> = db_paid"
    by (simp add: db_pending_def db_paid_def pending_order_def paid_order_def
        completed_order_def credited_user_def safe_def whole_def)
  note txn = txn_applied [OF ord fresh uid usr pm scenario_accepts(1) scenario_accepts(1),
      of "''t-1''" 7, unfolded after]
  show ?thesis
    using txn
    by (simp add: handleCallback_completed [OF scenario_callback(1) scenario_gateway]
        pending_order_def safe_def whole_def del: doc.simps)
qed

lemma run_db_paid_completed:
  "handleCallback (gw_reporting (JNum 1)) now ipn_forged db_paid =
     (callback_received, db_paid,
      [Call_RequestToken, Call_GetTransactionStatus (JStr ''tok'') (JStr ''t-1''),
       InTransaction (Get Orders ''o1'')])"
proof -
  have "orders db_paid ''o1'' = Some paid_order" and "status paid_order = ''Processing''"
    by (simp_all add: db_paid_def paid_order_def)
  from txn_already_processing [OF this] show ?thesis
    by (simp add: handleCallback_completed [OF scenario_callback(2) scenario_gateway])
qed

text \<open>A completed reply without a payment method: the update is refused, the transaction
  aborts after its two reads and nothing is written.\<close>

lemma reply_without_method_writes_nothing:
  "handleCallback gw_bare 7 ipn_plain db_pending =
     (error_processing_ipn, db_pending,
      [Call_RequestToken, Call_GetTransactionStatus (JStr ''tok'') (JStr ''t-1''),
       InTransaction (Get Orders ''o1''), InTransaction (Get Users ''u1''),
       ConsoleError ''Error in IPN callback handler:''])"
proof -
  have gw: "gateway_answers gw_bare (JStr ''tok'') (JStr ''t-1'')
              (JObj [(''status_code'', JNum 1)]) (JNum 1)"
    by (simp add: gateway_answers_def gw_bare_def)
  have "runTransaction db_pending
          (callback_txn (JStr ''t-1'') (JObj [(''status_code'', JNum 1)]) 7 ''o1'') =
        (Inl InvalidValue, [Get Orders ''o1'', Get Users ''u1''])"
    by (simp add: runTransaction_def callback_txn_def db_pending_def pending_order_def)
  then show ?thesis
    by (simp add: handleCallback_completed [OF scenario_callback(1) gw])
qed

subsection \<open>The status query\<close>

lemma status_of_code_express_eq: "status_of_code_express code = getStatusEnum code"
  by (simp add: status_of_code_express_def getStatusEnum_def)

lemma status_of_code_vercel_eq: "status_of_code_vercel code = getStatusEnum code"
  by (simp add: status_of_code_vercel_def getStatusEnum_def)

lemma transaction_status_answer:
  assumes "truthy (field (query req) ''pesapalTrackingId'')"
    and "RequestToken gw = Some tok"
    and "GetTransactionStatus gw tok (field (query req) ''pesapalTrackingId'') = Some data"
    and "js_get data ''status_code'' = Inr code"
    and "js_get data ''payment_method'' = Inr pm"
    and "js_get data ''description'' = Inr dsc"
  shows "transaction_status f gw req =
     (Response 200 (JsonBody (JObj [(''status'', JStr (f code)), (''payment_method'', pm),
                                    (''description'', dsc)])),
      [Call_RequestToken,
       Call_GetTransactionStatus tok (field (query req) ''pesapalTrackingId'')])"
  using assms by (simp add: transaction_status_def getPesapalAuthToken_def Let_def)

subsection \<open>Splitting a name at its spaces\<close>

lemma split_on_not_empty: "split_on sep s \<noteq> []"
  by (induction s) (auto split: list.splits)

lemma hd_split_on: "at0 (split_on sep s) = JStr (takeWhile (\<lambda>c. c \<noteq> sep) s)"
proof (induction s)
  case Nil
  show ?case by (simp add: at0_def)
next
  case (Cons c cs)
  then show ?case
    by (cases "split_on sep cs") (auto simp add: at0_def)
qed

lemma join_split_on: "join_with [sep] (split_on sep s) = s"
proof (induction s)
  case Nil
  show ?case by simp
next
  case (Cons c cs)
  obtain w ws where parts: "split_on sep cs = w # ws"
    using split_on_not_empty [of sep cs] by (cases "split_on sep cs") auto
  show ?case
  proof (cases "c = sep")
    case True
    with Cons parts show ?thesis by simp
  next
    case False
    with Cons parts show ?thesis by (cases ws) auto
  qed
qed

lemma join_tl_split_on:
  "join_with [sep] (drop (Suc 0) (split_on sep s)) = drop (Suc 0) (dropWhile (\<lambda>c. c \<noteq> sep) s)"
proof (induction s)
  case Nil
  show ?case by simp
next
  case (Cons c cs)
  obtain w ws where parts: "split_on sep cs = w # ws"
    using split_on_not_empty [of sep cs] by (cases "split_on sep cs") auto
  show ?case
  proof (cases "c = sep")
    case True
    then show ?thesis by (simp add: join_split_on)
  next
    case False
    with Cons parts show ?thesis by simp
  qed
qed

lemma name_parts:
  "at0 (split_on CHR '' '' name) = JStr (before_first_space name)"
  "join_with '' '' (drop (Suc 0) (split_on CHR '' '' name)) = after_first_space name"
  by (simp_all add: hd_split_on join_tl_split_on before_first_space_def after_first_space_def)

lemma pesapalOrderData_valid:
  assumes "js_get order ''user'' = Inr user" and "js_get user ''name'' = Inr (JStr name)"
  shows "\<exists>total email phone.
     pesapalOrderData cfg order (JStr oid) =
       Inr \<lparr> id' = JStr oid, currency = ''KES'', amount = total,
             description = ''Payment for Order #'' @ take 8 oid,
             callback_url = REDIRECT_URL cfg, notification_id = IPN_CALLBACK_URL cfg,
             billing = \<lparr> email_address = email, phone_number = phone,
                         first_name = JStr (before_first_space name),
                         last_name = JStr (if after_first_space name = []
                                           then before_first_space name
                                           else after_first_space name) \<rparr> \<rparr>"
proof -
  from assms(2) obtain email phone where
    user: "js_get user ''email'' = Inr email" "js_get user ''phone'' = Inr phone"
    using js_get_not_nullish by blast
  from assms(1) obtain total where total: "js_get order ''total'' = Inr total"
    using js_get_not_nullish by blast
  show ?thesis
    by (simp add: pesapalOrderData_def total user assms name_parts js_or_def)
qed

lemma js_get_defined_truthy: "js_get v k = Inr w \<Longrightarrow> w \<noteq> JUndefined \<Longrightarrow> truthy v"
  by (cases v) auto

lemma js_split_space_string: "js_split_space v = Inr parts \<Longrightarrow> \<exists>s. v = JStr s"
  by (cases v) auto

lemma pesapalOrderData_shapeless:
  assumes "js_get order ''user'' = Inr user"
    and "\<And>name. js_get user ''name'' \<noteq> Inr (JStr name)"
  shows "\<exists>e. pesapalOrderData cfg order orderId = Inl e"
  using assms
  by (auto simp add: pesapalOrderData_def split: sum.splits dest: js_split_space_string)

section \<open>The claims\<close>

text \<open>
  \<^bold>\<open>C1.\<close> The callback handler reads two things from the request, the tracking id and
  the merchant reference, and takes the payment's outcome from the gateway alone. Two
  notifications that agree on these two query parameters, handled against the same gateway
  answers, the same store and at the same time, produce the same answer, the same store and
  the same effects, whatever else the callers sent (further query parameters, a body,
  headers).
\<close>

theorem callback_outcome_ignores_caller_input:
  assumes "field (query r1) ''OrderTrackingId'' = field (query r2) ''OrderTrackingId''"
    and "field (query r1) ''OrderMerchantReference'' = field (query r2) ''OrderMerchantReference''"
  shows "handleCallback gw now r1 db = handleCallback gw now r2 db"
  using assms by (simp add: handleCallback_def)

theorem callback_outcome_ignores_caller_input_witness:
  "field (query ipn_forged) ''OrderTrackingId'' = field (query ipn_plain) ''OrderTrackingId'' \<and>
   field (query ipn_forged) ''OrderMerchantReference'' = field (query ipn_plain) ''OrderMerchantReference'' \<and>
   handleCallback (gw_reporting (JNum 2)) 7 ipn_forged db_pending =
   handleCallback (gw_reporting (JNum 2)) 7 ipn_plain db_pending"
  using callback_outcome_ignores_caller_input
    [of ipn_forged ipn_plain "gw_reporting (JNum 2)" 7 db_pending]
  by (simp add: ipn_forged_def ipn_plain_def field_def)

text \<open>
  \<^bold>\<open>C5.\<close> When the status code queried from the gateway is anything but the number 1,
  the handler issues one update outside any transaction, which sets the status of the
  referenced order to \<^verbatim>\<open>'Payment Failed'\<close>: every other field of that order, every other
  order and every user document stay as they were. The referenced order is the document
  that \<^verbatim>\<open>doc\<close> resolves the merchant reference to. When there is no such document, the
  update fails, nothing is created and the store is unchanged.
\<close>

theorem failed_callback_writes_status_only:
  assumes "callback_for req tid oid" and "gateway_answers gw tok tid data code"
    and "code \<noteq> JNum 1"
    and "handleCallback gw now req db = (resp, db', evs)"
  shows "users db' = users db \<and>
     (\<forall>d. orders db oid = Some d \<longrightarrow>
        orders db' = (orders db)(oid \<mapsto> d\<lparr>status := ''Payment Failed''\<rparr>) \<and>
        resp = callback_received \<and>
        evs = [Call_RequestToken, Call_GetTransactionStatus tok tid,
               Direct (UpdateOrder oid payment_failed_patch)]) \<and>
     (orders db oid = None \<longrightarrow> db' = db \<and> resp = error_processing_ipn)"
  using assms(4) handleCallback_not_completed [OF assms(1-3), of now db]
  by (auto split: option.splits)

theorem failed_callback_writes_status_only_witness:
  "callback_for ipn_slash (JStr ''t-1'') ''o1'' \<and>
   gateway_answers (gw_reporting (JNum 2)) (JStr ''tok'') (JStr ''t-1'') (status_data (JNum 2)) (JNum 2) \<and>
   JNum 2 \<noteq> JNum 1 \<and> orders db_pending ''o1'' = Some pending_order \<and>
   handleCallback (gw_reporting (JNum 2)) 7 ipn_slash db_pending =
     (callback_received,
      db_pending\<lparr>orders := (orders db_pending)(''o1'' \<mapsto> pending_order\<lparr>status := ''Payment Failed''\<rparr>)\<rparr>,
      [Call_RequestToken, Call_GetTransactionStatus (JStr ''tok'') (JStr ''t-1''),
       Direct (UpdateOrder ''o1'' payment_failed_patch)])"
proof -
  obtain resp db' evs where
    run: "handleCallback (gw_reporting (JNum 2)) 7 ipn_slash db_pending = (resp, db', evs)"
    by (cases "handleCallback (gw_reporting (JNum 2)) 7 ipn_slash db_pending") auto
  have ord: "orders db_pending ''o1'' = Some pending_order"
    by (simp add: db_pending_def)
  have "JNum 2 \<noteq> JNum 1" by simp
  from failed_callback_writes_status_only
    [OF scenario_callback(3) scenario_gateway this run]
  have "users db' = users db_pending"
    and "orders db' = (orders db_pending)(''o1'' \<mapsto> pending_order\<lparr>status := ''Payment Failed''\<rparr>)"
    and "resp = callback_received"
    and "evs = [Call_RequestToken, Call_GetTransactionStatus (JStr ''tok'') (JStr ''t-1''),
               Direct (UpdateOrder ''o1'' payment_failed_patch)]"
    using ord by auto
  moreover have "accepts db' = accepts db_pending"
    using run handleCallback_not_completed
      [OF scenario_callback(3) scenario_gateway \<open>JNum 2 \<noteq> JNum 1\<close>, of 7 db_pending] ord
    by auto
  ultimately show ?thesis using run ord by simp
qed

text \<open>
  \<^bold>\<open>C2.\<close> Handling a completed notification (status code 1) twice in a row leaves the
  store as handling it once does, and the second answer is the first answer. When the first
  run answered with success, the order is \<^verbatim>\<open>'Processing'\<close> afterwards and the second run
  only reads the order inside its transaction: it reads no user and writes nothing, so points,
  \<^verbatim>\<open>pointsEarned\<close> and \<^verbatim>\<open>paymentDetails\<close> are set at most once. The two notifications may
  differ in tracking id, gateway reply and time; the tracking id and the payment method of
  the first are values the store takes.
\<close>

theorem completed_callback_idempotent:
  assumes "callback_for r1 tid1 oid" and "gateway_answers gw1 tok1 tid1 data1 (JNum 1)"
    and "js_get data1 ''payment_method'' = Inr pm1"
    and taken: "accepts db tid1" "accepts db pm1"
    and "callback_for r2 tid2 oid" and "gateway_answers gw2 tok2 tid2 data2 (JNum 1)"
    and first: "handleCallback gw1 now1 r1 db = (resp1, db1, evs1)"
    and second: "handleCallback gw2 now2 r2 db1 = (resp2, db2, evs2)"
  shows "db2 = db1 \<and> resp2 = resp1 \<and>
     (resp1 = callback_received \<longrightarrow>
        (\<exists>d. orders db1 oid = Some d \<and> status d = ''Processing'') \<and>
        evs2 = [Call_RequestToken, Call_GetTransactionStatus tok2 tid2,
                InTransaction (Get Orders oid)])"
proof -
  from assms(7) obtain pm2 where pm2: "js_get data2 ''payment_method'' = Inr pm2"
    unfolding gateway_answers_def using js_get_not_nullish by blast
  note one = completed_callback_cases [OF assms(1,2,3) first]
  note two = completed_callback_cases [OF assms(6,7) pm2 second]
  from one taken consider
      (failed) "resp1 = error_processing_ipn" "db1 = db"
        "orders db oid = None \<or>
         (\<exists>d. orders db oid = Some d \<and> status d \<noteq> ''Processing'' \<and>
              referenced_user db d = None)"
    | (done_before) d where "resp1 = callback_received" "db1 = db"
        "orders db oid = Some d" "status d = ''Processing''"
    | (applied) d uid u where "resp1 = callback_received" "orders db oid = Some d"
        "db1 = db\<lparr> orders := (orders db)(oid \<mapsto> completed_order tid1 pm1 now1 d),
                   users := (users db)(uid \<mapsto> credited_user d u) \<rparr>"
    by blast
  then show ?thesis
  proof cases
    case failed
    with two show ?thesis
      by (auto simp add: referenced_user_def simp del: doc.simps)
  next
    case done_before
    with two show ?thesis by auto
  next
    case applied
    then have "orders db1 oid = Some (completed_order tid1 pm1 now1 d)"
      and "status (completed_order tid1 pm1 now1 d) = ''Processing''"
      by (simp_all add: completed_order_def)
    with two applied(1) show ?thesis by auto
  qed
qed

theorem completed_callback_idempotent_witness:
  "callback_for ipn_plain (JStr ''t-1'') ''o1'' \<and>
   gateway_answers (gw_reporting (JNum 1)) (JStr ''tok'') (JStr ''t-1'') (status_data (JNum 1)) (JNum 1) \<and>
   js_get (status_data (JNum 1)) ''payment_method'' = Inr (JStr ''MPESA'') \<and>
   accepts db_pending (JStr ''t-1'') \<and> accepts db_pending (JStr ''MPESA'') \<and>
   callback_for ipn_forged (JStr ''t-1'') ''o1'' \<and>
   fst (handleCallback (gw_reporting (JNum 1)) 7 ipn_plain db_pending) = callback_received \<and>
   fst (snd (handleCallback (gw_reporting (JNum 1)) 7 ipn_plain db_pending)) = db_paid \<and>
   handleCallback (gw_reporting (JNum 1)) 9 ipn_forged db_paid =
     (callback_received, db_paid,
      [Call_RequestToken, Call_GetTransactionStatus (JStr ''tok'') (JStr ''t-1''),
       InTransaction (Get Orders ''o1'')])"
proof -
  obtain resp2 db2 evs2 where
    second: "handleCallback (gw_reporting (JNum 1)) 9 ipn_forged db_paid = (resp2, db2, evs2)"
    by (cases "handleCallback (gw_reporting (JNum 1)) 9 ipn_forged db_paid") auto
  have pm: "js_get (status_data (JNum 1)) ''payment_method'' = Inr (JStr ''MPESA'')"
    by (simp add: status_data_def)
  from completed_callback_idempotent
    [OF scenario_callback(1) scenario_gateway pm scenario_accepts(1) scenario_accepts(1)
        scenario_callback(2) scenario_gateway run_db_pending_completed second]
  have "db2 = db_paid" and "resp2 = callback_received"
    and "evs2 = [Call_RequestToken, Call_GetTransactionStatus (JStr ''tok'') (JStr ''t-1''),
                 InTransaction (Get Orders ''o1'')]"
    by simp_all
  with second pm show ?thesis by (simp add: run_db_pending_completed)
qed



text \<open>
  \<^bold>\<open>C9\<close> (as amended). When, in the transaction of a completed notification, the order
  document is absent, or the order is not yet \<^verbatim>\<open>'Processing'\<close> and the user document it
  refers to is absent, the transaction aborts: the store is exactly as before (no order and
  no user modified, no document created) and the handler answers with the server error.
\<close>

theorem missing_document_aborts:
  assumes "callback_for req tid oid" and "gateway_answers gw tok tid data (JNum 1)"
    and gap: "orders db oid = None \<or>
       (\<exists>d. orders db oid = Some d \<and> status d \<noteq> ''Processing'' \<and>
            referenced_user db d = None)"
    and run: "handleCallback gw now req db = (resp, db', evs)"
  shows "db' = db \<and> resp = error_processing_ipn"
proof -
  from assms(2) obtain pm where pm: "js_get data ''payment_method'' = Inr pm"
    unfolding gateway_answers_def using js_get_not_nullish by blast
  from completed_callback_cases [OF assms(1,2) pm run] gap show ?thesis
    by (auto simp add: referenced_user_def simp del: doc.simps)
qed

theorem missing_document_aborts_witness:
  "callback_for ipn_slash (JStr ''t-1'') ''o1'' \<and>
   gateway_answers (gw_reporting (JNum 1)) (JStr ''tok'') (JStr ''t-1'') (status_data (JNum 1)) (JNum 1) \<and>
   orders db_pending_no_user ''o1'' = Some pending_order \<and>
   status pending_order \<noteq> ''Processing'' \<and>
   referenced_user db_pending_no_user pending_order = None \<and>
   fst (handleCallback (gw_reporting (JNum 1)) 7 ipn_slash db_pending_no_user)
     = error_processing_ipn \<and>
   fst (snd (handleCallback (gw_reporting (JNum 1)) 7 ipn_slash db_pending_no_user))
     = db_pending_no_user"
proof -
  obtain resp db' evs where
    run: "handleCallback (gw_reporting (JNum 1)) 7 ipn_slash db_pending_no_user = (resp, db', evs)"
    by (cases "handleCallback (gw_reporting (JNum 1)) 7 ipn_slash db_pending_no_user") auto
  have facts: "orders db_pending_no_user ''o1'' = Some pending_order"
    "status pending_order \<noteq> ''Processing''"
    "referenced_user db_pending_no_user pending_order = None"
    by (simp_all add: db_pending_no_user_def pending_order_def referenced_user_def)
  then have "orders db_pending_no_user ''o1'' = None \<or>
     (\<exists>d. orders db_pending_no_user ''o1'' = Some d \<and> status d \<noteq> ''Processing'' \<and>
          referenced_user db_pending_no_user d = None)"
    by simp
  from missing_document_aborts [OF scenario_callback(3) scenario_gateway this run]
  show ?thesis using run facts by simp
qed

text \<open>
  The claim as it was stated also covers an order that is already \<^verbatim>\<open>'Processing'\<close> and
  whose user document is absent. There the transaction returns before it looks for the
  user: nothing aborts and the handler answers with success.
\<close>

theorem processing_order_without_user_counterexample:
  "orders db_paid_no_user ''o1'' = Some paid_order \<and>
   users db_paid_no_user (user_id paid_order) = None \<and>
   handleCallback (gw_reporting (JNum 1)) 7 ipn_plain db_paid_no_user =
     (callback_received, db_paid_no_user,
      [Call_RequestToken, Call_GetTransactionStatus (JStr ''tok'') (JStr ''t-1''),
       InTransaction (Get Orders ''o1'')])"
proof -
  have "orders db_paid_no_user ''o1'' = Some paid_order" and "status paid_order = ''Processing''"
    and "users db_paid_no_user (user_id paid_order) = None"
    by (simp_all add: db_paid_no_user_def paid_order_def)
  with txn_already_processing [OF this(1,2)] show ?thesis
    by (simp add: handleCallback_completed [OF scenario_callback(1) scenario_gateway])
qed

text \<open>
  \<^bold>\<open>C4.\<close> \<^verbatim>\<open>'Processing'\<close> is meant to be final. The branch for a status code other than 1
  does not look at the order's current status: a notification whose queried status code
  is 2 turns a \<^verbatim>\<open>'Processing'\<close> order into \<^verbatim>\<open>'Payment Failed'\<close>.
\<close>

theorem processing_overwritten_by_failed_callback:
  "orders db_paid ''o1'' = Some paid_order \<and> status paid_order = ''Processing'' \<and>
   handleCallback (gw_reporting (JNum 2)) 8 ipn_plain db_paid =
     (callback_received,
      db_paid\<lparr>orders := [''o1'' \<mapsto> paid_order\<lparr>status := ''Payment Failed''\<rparr>]\<rparr>,
      [Call_RequestToken, Call_GetTransactionStatus (JStr ''tok'') (JStr ''t-1''),
       Direct (UpdateOrder ''o1'' payment_failed_patch)])"
proof -
  have "JNum 2 \<noteq> JNum 1" by simp
  from handleCallback_not_completed [OF scenario_callback(1) scenario_gateway this]
  show ?thesis by (simp add: db_paid_def paid_order_def)
qed

theorem processing_overwritten_by_failed_callback_witness:
  "map_option status (orders db_paid ''o1'') = Some ''Processing'' \<and>
   fst (handleCallback (gw_reporting (JNum 2)) 8 ipn_plain db_paid) = callback_received \<and>
   map_option status
     (orders (fst (snd (handleCallback (gw_reporting (JNum 2)) 8 ipn_plain db_paid))) ''o1'')
     = Some ''Payment Failed''"
  using processing_overwritten_by_failed_callback by simp

text \<open>
  With the order no longer \<^verbatim>\<open>'Processing'\<close>, the guard of the transaction lets the next
  completed notification through: the redeemed points are taken and the earned points given
  a second time (the balance goes from 32 to 24).
\<close>

lemma points_applied_again_after_failed_callback:
  "fst (snd (handleCallback (gw_reporting (JNum 1)) 9 ipn_plain
       (db_paid\<lparr>orders := [''o1'' \<mapsto> paid_order\<lparr>status := ''Payment Failed''\<rparr>]\<rparr>))) =
     db_paid\<lparr> orders := [''o1'' \<mapsto> paid_order\<lparr>paymentDetails :=
                   Some \<lparr> trackingId = JStr ''t-1'', pay_method = JStr ''MPESA'',
                          confirmedOn = 9 \<rparr>\<rparr>],
              users := [''u1'' \<mapsto> \<lparr> points = Some (Whole 24) \<rparr>] \<rparr>"
proof -
  let ?d = "paid_order\<lparr>status := ''Payment Failed''\<rparr>"
  let ?db = "db_paid\<lparr>orders := [''o1'' \<mapsto> ?d]\<rparr>"
  have ord: "orders ?db ''o1'' = Some ?d"
    and fresh: "status ?d \<noteq> ''Processing''"
    and uid: "doc (JStr (user_id ?d)) = Inr ''u1''"
    and usr: "users ?db ''u1'' = Some \<lparr> points = Some (Whole 32) \<rparr>"
    and pm: "js_get (status_data (JNum 1)) ''payment_method'' = Inr (JStr ''MPESA'')"
    and acc: "accepts ?db (JStr ''t-1'')" "accepts ?db (JStr ''MPESA'')"
    by (simp_all add: db_paid_def paid_order_def status_data_def)
  show ?thesis
    using txn_applied [OF ord fresh uid usr pm acc, of 9]
    by (simp add: handleCallback_completed [OF scenario_callback(1) scenario_gateway]
          del: doc.simps)
       (simp add: db_paid_def paid_order_def completed_order_def credited_user_def
          safe_def whole_def)
qed

text \<open>
  \<^bold>\<open>C6.\<close> The status query answers with the three fields \<^verbatim>\<open>status\<close>,
  \<^verbatim>\<open>payment_method\<close> and \<^verbatim>\<open>description\<close>, where the status is the enumeration of the
  specification applied to the provider's status code: 1 gives COMPLETED, 0 and 2 give
  FAILED, 3 gives PENDING and every other value gives INVALID. This holds for the chain of
  \<^verbatim>\<open>else if\<close> of the Express handler and for the separate \<^verbatim>\<open>if\<close> statements of
  \<^verbatim>\<open>handleTransactionStatus\<close> alike.
\<close>

theorem status_query_maps_codes:
  assumes "truthy (field (query req) ''pesapalTrackingId'')"
    and "RequestToken gw = Some tok"
    and "GetTransactionStatus gw tok (field (query req) ''pesapalTrackingId'') = Some data"
    and "js_get data ''status_code'' = Inr code"
    and "js_get data ''payment_method'' = Inr pm"
    and "js_get data ''description'' = Inr dsc"
  shows "fst (transaction_status_express gw req) =
           Response 200 (JsonBody (JObj [(''status'', JStr (getStatusEnum code)),
                                         (''payment_method'', pm), (''description'', dsc)])) \<and>
         fst (handleTransactionStatus gw req) =
           Response 200 (JsonBody (JObj [(''status'', JStr (getStatusEnum code)),
                                         (''payment_method'', pm), (''description'', dsc)])) \<and>
         getStatusEnum (JNum 1) = ''COMPLETED'' \<and> getStatusEnum (JNum 0) = ''FAILED'' \<and>
         getStatusEnum (JNum 2) = ''FAILED'' \<and> getStatusEnum (JNum 3) = ''PENDING'' \<and>
         (code \<notin> {JNum 0, JNum 1, JNum 2, JNum 3} \<longrightarrow> getStatusEnum code = ''INVALID'')"
  using transaction_status_answer [OF assms]
  by (simp add: transaction_status_express_def handleTransactionStatus_def
      status_of_code_express_eq status_of_code_vercel_eq) (simp add: getStatusEnum_def)

theorem status_query_maps_codes_witness:
  "truthy (field (query status_poll) ''pesapalTrackingId'') \<and>
   RequestToken (gw_reporting (JNum 7)) = Some (JStr ''tok'') \<and>
   GetTransactionStatus (gw_reporting (JNum 7)) (JStr ''tok'')
     (field (query status_poll) ''pesapalTrackingId'') = Some (status_data (JNum 7)) \<and>
   js_get (status_data (JNum 7)) ''status_code'' = Inr (JNum 7) \<and>
   JNum 7 \<notin> {JNum 0, JNum 1, JNum 2, JNum 3} \<and>
   fst (transaction_status_express (gw_reporting (JNum 7)) status_poll) =
     Response 200 (JsonBody (JObj [(''status'', JStr ''INVALID''),
       (''payment_method'', JStr ''MPESA''), (''description'', JStr ''from the gateway'')])) \<and>
   fst (handleTransactionStatus (gw_reporting (JNum 7)) status_poll) =
     Response 200 (JsonBody (JObj [(''status'', JStr ''INVALID''),
       (''payment_method'', JStr ''MPESA''), (''description'', JStr ''from the gateway'')]))"
proof -
  have h: "truthy (field (query status_poll) ''pesapalTrackingId'')"
    "RequestToken (gw_reporting (JNum 7)) = Some (JStr ''tok'')"
    "GetTransactionStatus (gw_reporting (JNum 7)) (JStr ''tok'')
       (field (query status_poll) ''pesapalTrackingId'') = Some (status_data (JNum 7))"
    "js_get (status_data (JNum 7)) ''status_code'' = Inr (JNum 7)"
    "js_get (status_data (JNum 7)) ''payment_method'' = Inr (JStr ''MPESA'')"
    "js_get (status_data (JNum 7)) ''description'' = Inr (JStr ''from the gateway'')"
    by (simp_all add: status_poll_def gw_reporting_def status_data_def field_def)
  from status_query_maps_codes [OF h] h show ?thesis by simp
qed
text \<open>
  \<^bold>\<open>C7\<close> (as amended). A submission that has a body and whose \<^verbatim>\<open>order\<close> or \<^verbatim>\<open>orderId\<close>
  is missing or otherwise falsy (undefined, null, false, zero, the empty string) is answered
  with status 400 and the structured message, and nothing else happens: no token is
  requested, no order is submitted, nothing is logged.
\<close>

theorem missing_order_data_rejected:
  assumes "js_get (body req) ''order'' = Inr order"
    and "js_get (body req) ''orderId'' = Inr orderId"
    and "\<not> truthy order \<or> \<not> truthy orderId"
  shows "handleOrder cfg gw req =
     (Inr (Response 400 (JsonBody (JObj [(''success'', JBool False),
                                         (''message'', JStr ''Missing order data.'')]))), [])"
  using assms by (auto simp add: handleOrder_def missing_order_data_def)

theorem missing_order_data_rejected_witness:
  "js_get (body (submission (order_of ''Jo Doe'') (JStr []))) ''order'' = Inr (order_of ''Jo Doe'') \<and>
   js_get (body (submission (order_of ''Jo Doe'') (JStr []))) ''orderId'' = Inr (JStr []) \<and>
   truthy (JStr []) = False \<and>
   handleOrder cfg0 (gw_reporting (JNum 1)) (submission (order_of ''Jo Doe'') (JStr [])) =
     (Inr (Response 400 (JsonBody (JObj [(''success'', JBool False),
                                         (''message'', JStr ''Missing order data.'')]))), [])"
proof -
  let ?req = "submission (order_of ''Jo Doe'') (JStr [])"
  have h: "js_get (body ?req) ''order'' = Inr (order_of ''Jo Doe'')"
    "js_get (body ?req) ''orderId'' = Inr (JStr [])"
    by (simp_all add: submission_def)
  have "\<not> truthy (order_of ''Jo Doe'') \<or> \<not> truthy (JStr [])" by simp
  from missing_order_data_rejected [OF h this, of cfg0 "gw_reporting (JNum 1)"] h
  show ?thesis by simp
qed

text \<open>
  The claim as it was stated speaks of an order that is missing or empty. The empty object
  is truthy: it passes the check, the token is requested (here from a gateway that is down)
  and the answer is the server error.
\<close>

theorem empty_order_reaches_gateway_counterexample:
  "handleOrder cfg0 gw_down (submission (JObj []) (JStr ''abcdef1234'')) =
     (Inr (Response 500 (JsonBody (JObj [(''success'', JBool False),
        (''message'', JStr ''Server error while creating payment request.'')]))),
      [Call_RequestToken, ConsoleError ''Error getting Pesapal token:'',
       ConsoleError ''Pesapal order submission failed:''])"
  by (simp add: handleOrder_def order_try_def getPesapalAuthToken_def submission_def
      gw_down_def payment_request_failed_def)

text \<open>A request without a body never reaches the check: the destructuring throws, and the
  handler writes no response.\<close>

lemma bodyless_submission_throws:
  "handleOrder cfg gw \<lparr> query = [], body = JUndefined, headers = [] \<rparr> = (Inl TypeError, [])"
  by (simp add: handleOrder_def)

text \<open>
  \<^bold>\<open>C8\<close> (as amended). For a submission whose order carries a full name, the request
  sent to the gateway has as \<^verbatim>\<open>first_name\<close> what stands before the first space, and as
  \<^verbatim>\<open>last_name\<close> the remainder after the first space when that remainder is not empty, and
  the first name otherwise (no space at all, or nothing after the first space). Its
  description ends with the first 8 characters of the order id.
\<close>

theorem gateway_request_names:
  assumes order: "js_get (body req) ''order'' = Inr order"
    and oid: "js_get (body req) ''orderId'' = Inr (JStr oid)" "oid \<noteq> []"
    and user: "js_get order ''user'' = Inr user"
    and name: "js_get user ''name'' = Inr (JStr name)"
    and tok: "RequestToken gw = Some tok"
  shows "\<exists>r rest.
     snd (handleOrder cfg gw req) = Call_RequestToken # Call_SubmitOrderRequest tok r # rest \<and>
     first_name (billing r) = JStr (before_first_space name) \<and>
     last_name (billing r) =
       JStr (if after_first_space name = [] then before_first_space name
             else after_first_space name) \<and>
     description r = ''Payment for Order #'' @ take 8 oid"
proof -
  from name have "truthy user" by (rule js_get_defined_truthy) simp
  then have "user \<noteq> JUndefined" by auto
  with user have valid: "truthy order" by (rule js_get_defined_truthy)
  from pesapalOrderData_valid [OF user name, of cfg oid]
  obtain r where r: "pesapalOrderData cfg order (JStr oid) = Inr r"
    and "first_name (billing r) = JStr (before_first_space name)"
    and "last_name (billing r) =
       JStr (if after_first_space name = [] then before_first_space name
             else after_first_space name)"
    and "description r = ''Payment for Order #'' @ take 8 oid"
    by auto
  moreover have "\<exists>rest. snd (handleOrder cfg gw req) =
      Call_RequestToken # Call_SubmitOrderRequest tok r # rest"
    using order oid valid tok r
    by (auto simp add: handleOrder_def order_try_def getPesapalAuthToken_def Let_def
        split: option.splits sum.splits)
  ultimately show ?thesis by blast
qed

theorem gateway_request_names_witness:
  "js_get (body (submission (order_of ''Jo Doe'') (JStr ''abcdef1234''))) ''order''
     = Inr (order_of ''Jo Doe'') \<and>
   js_get (body (submission (order_of ''Jo Doe'') (JStr ''abcdef1234''))) ''orderId''
     = Inr (JStr ''abcdef1234'') \<and>
   ''abcdef1234'' \<noteq> [] \<and>
   js_get (order_of ''Jo Doe'') ''user'' =
     Inr (JObj [(''email'', JStr ''a@b.com''), (''phone'', JStr ''1''), (''name'', JStr ''Jo Doe'')]) \<and>
   js_get (JObj [(''email'', JStr ''a@b.com''), (''phone'', JStr ''1''), (''name'', JStr ''Jo Doe'')])
     ''name'' = Inr (JStr ''Jo Doe'') \<and>
   RequestToken (gw_reporting (JNum 1)) = Some (JStr ''tok'') \<and>
   (\<exists>r rest.
      snd (handleOrder cfg0 (gw_reporting (JNum 1))
             (submission (order_of ''Jo Doe'') (JStr ''abcdef1234''))) =
        Call_RequestToken # Call_SubmitOrderRequest (JStr ''tok'') r # rest \<and>
      first_name (billing r) = JStr ''Jo'' \<and> last_name (billing r) = JStr ''Doe'' \<and>
      description r = ''Payment for Order #abcdef12'')"
proof -
  let ?user = "JObj [(''email'', JStr ''a@b.com''), (''phone'', JStr ''1''), (''name'', JStr ''Jo Doe'')]"
  let ?req = "submission (order_of ''Jo Doe'') (JStr ''abcdef1234'')"
  have h: "js_get (body ?req) ''order'' = Inr (order_of ''Jo Doe'')"
    "js_get (body ?req) ''orderId'' = Inr (JStr ''abcdef1234'')"
    "''abcdef1234'' \<noteq> []"
    "js_get (order_of ''Jo Doe'') ''user'' = Inr ?user"
    "js_get ?user ''name'' = Inr (JStr ''Jo Doe'')"
    "RequestToken (gw_reporting (JNum 1)) = Some (JStr ''tok'')"
    by (simp_all add: submission_def order_of_def gw_reporting_def)
  have parts: "before_first_space ''Jo Doe'' = ''Jo''" "after_first_space ''Jo Doe'' = ''Doe''"
    by (simp_all add: before_first_space_def after_first_space_def)
  from gateway_request_names [OF h, of cfg0] h show ?thesis
    by (simp add: parts)
qed

text \<open>
  The claim as it was stated gives the remainder after the first space whenever the name
  contains one. For the name \<^verbatim>\<open>"Jo "\<close> that remainder is empty, and the gateway receives
  the last name \<^verbatim>\<open>"Jo"\<close>.
\<close>

theorem trailing_space_name_counterexample:
  "CHR '' '' \<in> set ''Jo '' \<and> after_first_space ''Jo '' = [] \<and>
   handleOrder cfg0 (gw_reporting (JNum 1)) (submission (order_of ''Jo '') (JStr ''abcdef1234'')) =
     (Inr (Response 200 (JsonBody (JObj [(''success'', JBool True),
                                         (''paymentUrl'', JStr ''https://pay/1'')]))),
      [Call_RequestToken,
       Call_SubmitOrderRequest (JStr ''tok'')
         \<lparr> id' = JStr ''abcdef1234'', currency = ''KES'', amount = JNum 500,
           description = ''Payment for Order #abcdef12'',
           callback_url = ''http://localhost:3000/#/pesapal-callback'',
           notification_id = ''http://localhost:3000/api/pesapal/callback'',
           billing = \<lparr> email_address = JStr ''a@b.com'', phone_number = JStr ''1'',
                       first_name = JStr ''Jo'', last_name = JStr ''Jo'' \<rparr> \<rparr>])"
  by (simp add: after_first_space_def handleOrder_def order_try_def getPesapalAuthToken_def
      pesapalOrderData_def submission_def order_of_def gw_reporting_def cfg0_def
      js_or_def at0_def Let_def)

text \<open>
  \<^bold>\<open>C10\<close> (as amended). Validation looks at the truthiness of \<^verbatim>\<open>order\<close> and \<^verbatim>\<open>orderId\<close>
  only. A truthy order without a user that carries a name (no \<^verbatim>\<open>user\<close>, as in the empty
  object, or a user whose \<^verbatim>\<open>name\<close> is not a string) passes it: the handler requests a
  token from the gateway and, whether or not it gets one, throws before any order is
  submitted; it answers with status 500 and the generic message, not with the 400 of the
  validation.
\<close>

theorem shapeless_order_is_server_error:
  assumes order: "js_get (body req) ''order'' = Inr order" "truthy order"
    and oid: "js_get (body req) ''orderId'' = Inr orderId" "truthy orderId"
    and user: "js_get order ''user'' = Inr user"
    and no_name: "\<And>name. js_get user ''name'' \<noteq> Inr (JStr name)"
  shows "handleOrder cfg gw req =
     (Inr (Response 500 (JsonBody (JObj [(''success'', JBool False),
        (''message'', JStr ''Server error while creating payment request.'')]))),
      (case RequestToken gw of
         None \<Rightarrow> [Call_RequestToken, ConsoleError ''Error getting Pesapal token:'']
       | Some tok \<Rightarrow> [Call_RequestToken])
      @ [ConsoleError ''Pesapal order submission failed:''])"
proof -
  from pesapalOrderData_shapeless [OF user no_name]
  obtain e where "pesapalOrderData cfg order orderId = Inl e"
    by blast
  with order oid show ?thesis
    by (simp add: handleOrder_def order_try_def getPesapalAuthToken_def
        payment_request_failed_def Let_def split: option.splits)
qed

theorem shapeless_order_is_server_error_witness:
  "js_get (body (submission (JObj []) (JStr ''abcdef1234''))) ''order'' = Inr (JObj []) \<and>
   truthy (JObj []) \<and>
   js_get (body (submission (JObj []) (JStr ''abcdef1234''))) ''orderId''
     = Inr (JStr ''abcdef1234'') \<and>
   truthy (JStr ''abcdef1234'') \<and>
   js_get (JObj []) ''user'' = Inr JUndefined \<and>
   js_get JUndefined ''name'' = Inl TypeError \<and>
   handleOrder cfg0 (gw_reporting (JNum 1)) (submission (JObj []) (JStr ''abcdef1234'')) =
     (Inr (Response 500 (JsonBody (JObj [(''success'', JBool False),
        (''message'', JStr ''Server error while creating payment request.'')]))),
      [Call_RequestToken, ConsoleError ''Pesapal order submission failed:''])"
proof -
  let ?req = "submission (JObj []) (JStr ''abcdef1234'')"
  have h: "js_get (body ?req) ''order'' = Inr (JObj [])" "truthy (JObj [])"
    "js_get (body ?req) ''orderId'' = Inr (JStr ''abcdef1234'')" "truthy (JStr ''abcdef1234'')"
    "js_get (JObj []) ''user'' = Inr JUndefined"
    by (simp_all add: submission_def)
  have n: "js_get JUndefined ''name'' \<noteq> Inr (JStr name)" for name by simp
  from shapeless_order_is_server_error [OF h n, of cfg0 "gw_reporting (JNum 1)"] h
  show ?thesis by (simp add: gw_reporting_def)
qed

text \<open>
  The claim as it was stated speaks of every truthy order that lacks the expected fields.
  An order with a name but without \<^verbatim>\<open>total\<close>, \<^verbatim>\<open>email\<close> and \<^verbatim>\<open>phone\<close> is submitted to
  the gateway with these three undefined, and the answer is the payment url.
\<close>

theorem name_only_order_is_submitted_counterexample:
  "js_get order_name_only ''total'' = Inr JUndefined \<and>
   handleOrder cfg0 (gw_reporting (JNum 1)) (submission order_name_only (JStr ''abcdef1234'')) =
     (Inr (Response 200 (JsonBody (JObj [(''success'', JBool True),
                                         (''paymentUrl'', JStr ''https://pay/1'')]))),
      [Call_RequestToken,
       Call_SubmitOrderRequest (JStr ''tok'')
         \<lparr> id' = JStr ''abcdef1234'', currency = ''KES'', amount = JUndefined,
           description = ''Payment for Order #abcdef12'',
           callback_url = ''http://localhost:3000/#/pesapal-callback'',
           notification_id = ''http://localhost:3000/api/pesapal/callback'',
           billing = \<lparr> email_address = JUndefined, phone_number = JUndefined,
                       first_name = JStr ''Jo'', last_name = JStr ''Doe'' \<rparr> \<rparr>])"
  by (simp add: handleOrder_def order_try_def getPesapalAuthToken_def
      pesapalOrderData_def submission_def order_name_only_def gw_reporting_def cfg0_def
      js_or_def at0_def Let_def)

end
